theory Spec2Isabelle
  imports Complex_Main "HOL-Library.Log_Nat"
begin

section \<open>Python values and exceptions\<close>

text \<open>
  The script \<^verbatim>\<open>decorators.py\<close> computes with Python numbers. A radius is annotated
  \<^verbatim>\<open>float\<close>, and the script itself passes \<^verbatim>\<open>int\<close> literals (\<^verbatim>\<open>Circle(5)\<close>,
  \<^verbatim>\<open>c.radius = 10\<close>), so a value is an unbounded \<^verbatim>\<open>int\<close> or a \<^verbatim>\<open>float\<close>.

  A float is an IEEE 754 double: a finite number, one of the two infinities, or NaN.
  \<open>Finite x\<close> holds the real number that a finite double stands for (the sign of zero
  is left out). Every ordered comparison with NaN is false. The result of an arithmetic
  operation is rounded to double precision and overflows to infinity, and where Python
  turns an overflow into \<^verbatim>\<open>OverflowError\<close> the model raises it too.
\<close>

datatype pyfloat = Finite real | PosInf | NegInf | NaN

datatype pyval = PInt int | PFloat pyfloat

text \<open>
  The exceptions that the modelled code can raise. \<^verbatim>\<open>ValueError\<close> carries its message;
  \<^verbatim>\<open>AttributeError\<close> carries the name of the missing attribute; \<^verbatim>\<open>OverflowError\<close>
  is what Python raises for an \<^verbatim>\<open>int\<close> too large to convert to a float and for a
  float power that overflows.
\<close>

datatype pyerr = ValueError string | AttributeError string | TypeError | OverflowError

subsection \<open>Comparison\<close>

text \<open>\<^verbatim>\<open>x > y\<close> and \<^verbatim>\<open>x <= y\<close> on floats (IEEE 754: false when either side is NaN).\<close>

fun float_gt :: "pyfloat \<Rightarrow> pyfloat \<Rightarrow> bool" where
  "float_gt NaN y = False"
| "float_gt x NaN = False"
| "float_gt PosInf y = (y \<noteq> PosInf)"
| "float_gt NegInf y = False"
| "float_gt (Finite a) PosInf = False"
| "float_gt (Finite a) NegInf = True"
| "float_gt (Finite a) (Finite b) = (b < a)"

fun float_le :: "pyfloat \<Rightarrow> pyfloat \<Rightarrow> bool" where
  "float_le NaN y = False"
| "float_le x NaN = False"
| "float_le PosInf y = (y = PosInf)"
| "float_le NegInf y = True"
| "float_le (Finite a) PosInf = True"
| "float_le (Finite a) NegInf = False"
| "float_le (Finite a) (Finite b) = (a \<le> b)"

text \<open>
  Mixed comparisons: Python compares an \<^verbatim>\<open>int\<close> with a \<^verbatim>\<open>float\<close> by their exact
  mathematical values.
\<close>

fun py_gt :: "pyval \<Rightarrow> pyval \<Rightarrow> bool" where
  "py_gt (PInt a) (PInt b) = (b < a)"
| "py_gt (PInt a) (PFloat y) = float_gt (Finite (of_int a)) y"
| "py_gt (PFloat x) (PInt b) = float_gt x (Finite (of_int b))"
| "py_gt (PFloat x) (PFloat y) = float_gt x y"

fun py_le :: "pyval \<Rightarrow> pyval \<Rightarrow> bool" where
  "py_le (PInt a) (PInt b) = (a \<le> b)"
| "py_le (PInt a) (PFloat y) = float_le (Finite (of_int a)) y"
| "py_le (PFloat x) (PInt b) = float_le x (Finite (of_int b))"
| "py_le (PFloat x) (PFloat y) = float_le x y"

subsection \<open>Rounding to double precision\<close>

text \<open>
  A double has 53 significant bits, binary exponents from \<open>-1022\<close> to \<open>1023\<close> and
  gradual underflow below. Rounding is to the nearest double, a tie going to the one
  whose last bit is even; a result of magnitude \<open>2\<^sup>1\<^sup>0\<^sup>2\<^sup>4\<close> or more is an overflow.

  \<open>round_half_even\<close> rounds a real to the nearest integer, a tie to the even one.
\<close>

definition round_half_even :: "real \<Rightarrow> int" where
  "round_half_even x =
     (let f = \<lfloor>x\<rfloor>; d = x - of_int f
      in if d < 1 / 2 then f else if 1 / 2 < d then f + 1 else if even f then f else f + 1)"

text \<open>
  The binary exponent of \<open>x \<noteq> 0\<close>: the \<open>e\<close> with \<open>2\<^sup>e \<le> \<bar>x\<bar> < 2\<^sup>e\<^sup>+\<^sup>1\<close>, computed on
  integers (\<open>floorlog 2 n\<close> is the number of binary digits of \<open>n\<close>).
\<close>

definition binary_exponent :: "real \<Rightarrow> int" where
  "binary_exponent x =
     (if 1 \<le> \<bar>x\<bar> then int (floorlog 2 (nat \<lfloor>\<bar>x\<bar>\<rfloor>)) - 1
      else - int (floorlog 2 (nat (\<lceil>1 / \<bar>x\<bar>\<rceil> - 1))))"

text \<open>
  Rounding to 53 significant bits: the spacing of the doubles around \<open>x\<close> is
  \<open>2\<^sup>e\<^sup>-\<^sup>5\<^sup>2\<close>, and \<open>2\<^sup>-\<^sup>1\<^sup>0\<^sup>7\<^sup>4\<close> in the subnormal range. \<open>round_finite\<close> leaves the overflow
  aside, \<open>round_double\<close> turns it into an infinity.
\<close>

definition round_finite :: "real \<Rightarrow> real" where
  "round_finite x =
     (let u = 2 powi (max (binary_exponent x) (- 1022) - 52)
      in of_int (round_half_even (x / u)) * u)"

definition round_double :: "real \<Rightarrow> pyfloat" where
  "round_double x =
     (let y = round_finite x
      in if 2 ^ 1024 \<le> y then PosInf else if y \<le> - (2 ^ 1024) then NegInf else Finite y)"

subsection \<open>Arithmetic\<close>

text \<open>
  \<^verbatim>\<open>x * y\<close> on floats: NaN is contagious, an infinity times zero is NaN, the sign of
  an infinite product is the product of the signs, and a finite product is rounded; it
  becomes an infinity when it overflows, without an exception.
\<close>

fun float_sgn :: "pyfloat \<Rightarrow> real" where
  "float_sgn (Finite a) = sgn a"
| "float_sgn PosInf = 1"
| "float_sgn NegInf = - 1"
| "float_sgn NaN = 0"

fun float_mul :: "pyfloat \<Rightarrow> pyfloat \<Rightarrow> pyfloat" where
  "float_mul NaN y = NaN"
| "float_mul x NaN = NaN"
| "float_mul (Finite a) (Finite b) = round_double (a * b)"
| "float_mul x y =
     (if float_sgn x * float_sgn y = 0 then NaN
      else if 0 < float_sgn x * float_sgn y then PosInf else NegInf)"

text \<open>
  \<^verbatim>\<open>x ** n\<close> for a float \<open>x\<close> and a literal exponent \<open>n \<ge> 0\<close>. \<^verbatim>\<open>x ** 0\<close> is
  \<^verbatim>\<open>1.0\<close> for every \<open>x\<close>, NaN included; otherwise NaN and the infinities are
  answered by Python itself, and a finite \<open>x\<close> goes to the C library's \<^verbatim>\<open>pow\<close>, whose
  overflow Python turns into \<^verbatim>\<open>OverflowError\<close>. The power is taken correctly rounded,
  as IEEE 754 recommends; a C library may return the neighbouring double instead.
\<close>

definition float_pow :: "pyfloat \<Rightarrow> nat \<Rightarrow> pyerr + pyfloat" where
  "float_pow x n =
     (if n = 0 then Inr (Finite 1)
      else case x of
             NaN \<Rightarrow> Inr NaN
           | PosInf \<Rightarrow> Inr PosInf
           | NegInf \<Rightarrow> Inr (if even n then PosInf else NegInf)
           | Finite a \<Rightarrow>
               (case round_double (a ^ n) of
                  Finite y \<Rightarrow> Inr (Finite y)
                | overflow \<Rightarrow> Inl OverflowError))"

text \<open>
  An \<^verbatim>\<open>int\<close> operand of a float operation is converted first: rounded to the nearest
  double, with \<^verbatim>\<open>OverflowError\<close> when it is too large for one.
\<close>

fun to_float :: "pyval \<Rightarrow> pyerr + pyfloat" where
  "to_float (PInt a) =
     (case round_double (of_int a) of
        Finite y \<Rightarrow> Inr (Finite y)
      | overflow \<Rightarrow> Inl OverflowError)"
| "to_float (PFloat x) = Inr x"

text \<open>
  \<^verbatim>\<open>int * int\<close> and \<^verbatim>\<open>int ** n\<close> stay exact integers of any size; as soon as one
  operand is a float, the other is converted and the result is a float.
\<close>

fun py_mul :: "pyval \<Rightarrow> pyval \<Rightarrow> pyerr + pyval" where
  "py_mul (PInt a) (PInt b) = Inr (PInt (a * b))"
| "py_mul x y =
     (case to_float x of
        Inl e \<Rightarrow> Inl e
      | Inr fx \<Rightarrow>
          (case to_float y of
             Inl e \<Rightarrow> Inl e
           | Inr fy \<Rightarrow> Inr (PFloat (float_mul fx fy))))"

fun py_pow :: "pyval \<Rightarrow> nat \<Rightarrow> pyerr + pyval" where
  "py_pow (PInt a) n = Inr (PInt (a ^ n))"
| "py_pow (PFloat x) n =
     (case float_pow x n of Inl e \<Rightarrow> Inl e | Inr y \<Rightarrow> Inr (PFloat y))"

text \<open>The real number that an \<^verbatim>\<open>int\<close> or a finite float stands for.\<close>

fun finite_value :: "pyval \<Rightarrow> real option" where
  "finite_value (PInt a) = Some (of_int a)"
| "finite_value (PFloat (Finite x)) = Some x"
| "finite_value (PFloat y) = None"

section \<open>The class \<^verbatim>\<open>Circle\<close>\<close>

text \<open>
  An instance is its attribute dictionary. The class defines the properties
  \<^verbatim>\<open>radius\<close> (getter, setter, deleter) and \<^verbatim>\<open>area\<close> (getter only); all of them work
  on the one instance attribute \<^verbatim>\<open>_radius\<close>. A method takes the instance and returns
  its outcome (an exception to the left, a value to the right) together with the
  instance as the call leaves it, so that the state after a raise is part of the model.
\<close>

type_synonym attrs = "string \<rightharpoonup> pyval"

text \<open>\<^verbatim>\<open>def __init__(self, radius): self._radius = radius\<close>\<close>

definition Circle_init :: "attrs \<Rightarrow> pyval \<Rightarrow> attrs" where
  "Circle_init self radius = self(''_radius'' \<mapsto> radius)"

text \<open>\<^verbatim>\<open>Circle(radius)\<close>: a fresh instance with no attributes, then \<^verbatim>\<open>__init__\<close>.\<close>

definition Circle :: "pyval \<Rightarrow> attrs" where
  "Circle radius = Circle_init Map.empty radius"

text \<open>
  \<^verbatim>\<open>@property def radius(self): return self._radius\<close>.
  Reading a missing attribute raises \<^verbatim>\<open>AttributeError\<close>.
\<close>

definition Circle_radius :: "attrs \<Rightarrow> (pyerr + pyval) \<times> attrs" where
  "Circle_radius self =
     (case self ''_radius'' of
        None \<Rightarrow> (Inl (AttributeError ''_radius''), self)
      | Some r \<Rightarrow> (Inr r, self))"

text \<open>
  \<^verbatim>\<open>@radius.setter def radius(self, value):\<close>
  \<^verbatim>\<open>    if value > 0: self._radius = value\<close>
  \<^verbatim>\<open>    else: raise ValueError("Radius must be positive")\<close>
\<close>

definition Circle_radius_setter :: "attrs \<Rightarrow> pyval \<Rightarrow> (pyerr + unit) \<times> attrs" where
  "Circle_radius_setter self val =
     (if py_gt val (PInt 0) then (Inr (), self(''_radius'' \<mapsto> val))
      else (Inl (ValueError ''Radius must be positive''), self))"

text \<open>
  \<^verbatim>\<open>@radius.deleter def radius(self): del self._radius\<close>.
  Deleting a missing attribute raises \<^verbatim>\<open>AttributeError\<close>.
\<close>

definition Circle_radius_deleter :: "attrs \<Rightarrow> (pyerr + unit) \<times> attrs" where
  "Circle_radius_deleter self =
     (case self ''_radius'' of
        None \<Rightarrow> (Inl (AttributeError ''_radius''), self)
      | Some r \<Rightarrow> (Inr (), self(''_radius'' := None)))"

text \<open>
  \<^verbatim>\<open>@property def area(self): return 3.14 * self.radius ** 2\<close>.
  The radius is read through the property; \<^verbatim>\<open>**\<close> binds tighter than \<^verbatim>\<open>*\<close>, so the
  square is taken first; the literal \<^verbatim>\<open>3.14\<close> is the double nearest to 3.14. An
  exception of the read or of the arithmetic leaves the method at once.
\<close>

definition Circle_area :: "attrs \<Rightarrow> (pyerr + pyval) \<times> attrs" where
  "Circle_area self =
     (case Circle_radius self of
        (Inl e, self') \<Rightarrow> (Inl e, self')
      | (Inr r, self') \<Rightarrow>
          (case py_pow r 2 of
             Inl e \<Rightarrow> (Inl e, self')
           | Inr square \<Rightarrow>
               (case py_mul (PFloat (round_double 3.14)) square of
                  Inl e \<Rightarrow> (Inl e, self')
                | Inr a \<Rightarrow> (Inr a, self'))))"

section \<open>Console output and module state\<close>

text \<open>
  The script is run top to bottom by one thread. What it can change is the console and
  the class attribute \<^verbatim>\<open>MyClass.count\<close>; both are fields of the state that every
  statement takes and returns. \<^verbatim>\<open>stdout\<close> holds the printed lines, oldest first.
\<close>

record MyClass_cls =
  count :: int

record world =
  stdout :: "string list"
  MyClass :: MyClass_cls

text \<open>\<^verbatim>\<open>print(line)\<close>\<close>

definition print :: "string \<Rightarrow> 'a world_scheme \<Rightarrow> 'a world_scheme" where
  "print line w = w\<lparr>stdout := stdout w @ [line]\<rparr>"

subsection \<open>Formatting\<close>

text \<open>\<^verbatim>\<open>str\<close> of an \<^verbatim>\<open>int\<close>: decimal digits, with a minus sign when negative.\<close>

definition digit_char :: "nat \<Rightarrow> char" where
  "digit_char d = ''0123456789'' ! d"

fun str_nat :: "nat \<Rightarrow> string" where
  "str_nat n = (if n < 10 then [digit_char n] else str_nat (n div 10) @ [digit_char (n mod 10)])"

definition str_int :: "int \<Rightarrow> string" where
  "str_int i = (if i < 0 then ''-'' @ str_nat (nat (- i)) else str_nat (nat i))"

text \<open>\<^verbatim>\<open>sep.join(parts)\<close>\<close>

fun join :: "string \<Rightarrow> string list \<Rightarrow> string" where
  "join sep [] = []"
| "join sep [p] = p"
| "join sep (p # q # ps) = p @ sep @ join sep (q # ps)"

text \<open>
  The f-string fields \<^verbatim>\<open>{args}\<close> and \<^verbatim>\<open>{kwargs}\<close> print a tuple and a dict. The
  \<^verbatim>\<open>repr\<close> of the elements is a parameter; a tuple of one element is printed with a
  trailing comma; the keys of \<^verbatim>\<open>kwargs\<close> are parameter names, printed in single quotes.
\<close>

definition repr_tuple :: "('v \<Rightarrow> string) \<Rightarrow> 'v list \<Rightarrow> string" where
  "repr_tuple repr args =
     (case args of
        [x] \<Rightarrow> ''('' @ repr x @ '',)''
      | _ \<Rightarrow> ''('' @ join '', '' (map repr args) @ '')'')"

definition repr_key :: "string \<Rightarrow> string" where
  "repr_key k = [CHR 0x27] @ k @ [CHR 0x27]"

definition repr_dict :: "('v \<Rightarrow> string) \<Rightarrow> (string \<times> 'v) list \<Rightarrow> string" where
  "repr_dict repr kwargs =
     ''{'' @ join '', '' (map (\<lambda>(k, v). repr_key k @ '': '' @ repr v) kwargs) @ ''}''"

section \<open>The decorator \<^verbatim>\<open>log\<close>\<close>

text \<open>
  A Python function is called with a tuple of positional arguments and a dict of keyword
  arguments (an association list, in the order of the call). It runs on the state and
  either raises or returns a value.
\<close>

type_synonym ('v, 'r, 'w) pyfun = "'v list \<Rightarrow> (string \<times> 'v) list \<Rightarrow> 'w \<Rightarrow> (pyerr + 'r) \<times> 'w"

text \<open>
  \<^verbatim>\<open>def wrapper(*args, **kwargs):\<close>
  \<^verbatim>\<open>    print(f"Calling the wrapped function with arguments {args}, {kwargs}")\<close>
  \<^verbatim>\<open>    func(*args, **kwargs)\<close>
  \<^verbatim>\<open>    print(f"Wrapped function execution complete!")\<close>
  The body has no \<^verbatim>\<open>return\<close>: the value of \<^verbatim>\<open>func\<close> is dropped and the call
  evaluates to \<^verbatim>\<open>None\<close>, written \<open>None\<close> here, where \<open>Some r\<close> would be a value
  \<open>r\<close> of \<^verbatim>\<open>func\<close>. There is no \<^verbatim>\<open>try\<close>: an exception of \<^verbatim>\<open>func\<close> leaves the
  wrapper at once.
\<close>

definition calling_message :: "('v \<Rightarrow> string) \<Rightarrow> 'v list \<Rightarrow> (string \<times> 'v) list \<Rightarrow> string" where
  "calling_message repr args kwargs =
     ''Calling the wrapped function with arguments '' @ repr_tuple repr args @ '', ''
       @ repr_dict repr kwargs"

definition wrapper ::
  "('v \<Rightarrow> string) \<Rightarrow> ('v, 'r, 'a world_scheme) pyfun \<Rightarrow> ('v, 'r option, 'a world_scheme) pyfun" where
  "wrapper repr func args kwargs w =
     (case func args kwargs (print (calling_message repr args kwargs) w) of
        (Inl e, w') \<Rightarrow> (Inl e, w')
      | (Inr r, w') \<Rightarrow> (Inr None, print ''Wrapped function execution complete!'' w'))"

text \<open>\<^verbatim>\<open>def log(func): ... return wrapper\<close>: the closure of \<^verbatim>\<open>wrapper\<close> over \<^verbatim>\<open>func\<close>.\<close>

definition log_dec ::
  "('v \<Rightarrow> string) \<Rightarrow> ('v, 'r, 'a world_scheme) pyfun \<Rightarrow> ('v, 'r option, 'a world_scheme) pyfun" where
  "log_dec repr func = wrapper repr func"

subsection \<open>The decorated function \<^verbatim>\<open>add\<close>\<close>

text \<open>
  \<^verbatim>\<open>def add(num1: int, num2: int) -> int:\<close>
  \<^verbatim>\<open>    sum = num1 + num2; print(f"Sum = {sum}"); return sum\<close>
\<close>

definition add :: "int \<Rightarrow> int \<Rightarrow> 'a world_scheme \<Rightarrow> (pyerr + int) \<times> 'a world_scheme" where
  "add num1 num2 w = (let sum = num1 + num2 in (Inr sum, print (''Sum = '' @ str_int sum) w))"

text \<open>
  Binding the arguments of a call to the parameters of a \<^verbatim>\<open>def\<close>: positional arguments
  fill the parameters from the left, each remaining parameter takes the keyword argument
  of its name, and a call with too many, missing, unknown or doubly given arguments
  raises \<^verbatim>\<open>TypeError\<close>.
\<close>

fun bind_keywords :: "string list \<Rightarrow> (string \<times> 'v) list \<Rightarrow> pyerr + 'v list" where
  "bind_keywords [] kwargs = (if kwargs = [] then Inr [] else Inl TypeError)"
| "bind_keywords (p # ps) kwargs =
     (case map_of kwargs p of
        None \<Rightarrow> Inl TypeError
      | Some v \<Rightarrow>
          (case bind_keywords ps (filter (\<lambda>kv. fst kv \<noteq> p) kwargs) of
             Inl e \<Rightarrow> Inl e
           | Inr vs \<Rightarrow> Inr (v # vs)))"

definition bind_params :: "string list \<Rightarrow> 'v list \<Rightarrow> (string \<times> 'v) list \<Rightarrow> pyerr + 'v list" where
  "bind_params params args kwargs =
     (if length params < length args then Inl TypeError
      else case bind_keywords (drop (length args) params) kwargs of
             Inl e \<Rightarrow> Inl e
           | Inr vs \<Rightarrow> Inr (args @ vs))"

text \<open>\<^verbatim>\<open>add(*args, **kwargs)\<close>\<close>

definition add_call :: "(int, int, 'a world_scheme) pyfun" where
  "add_call args kwargs w =
     (case bind_params [''num1'', ''num2''] args kwargs of
        Inl e \<Rightarrow> (Inl e, w)
      | Inr vs \<Rightarrow> (case vs of [num1, num2] \<Rightarrow> add num1 num2 w | _ \<Rightarrow> (Inl TypeError, w)))"

text \<open>\<^verbatim>\<open>log_add = log(add)\<close>\<close>

definition log_add :: "(int, int option, 'a world_scheme) pyfun" where
  "log_add = log_dec str_int add_call"

subsection \<open>Observing the calls of a wrapped function\<close>

text \<open>
  A function that does nothing but note the arguments of each call, at the end of a call
  log kept beside the program state, and return. Decorating it shows how often, and with
  which arguments, a wrapper calls the function it wraps.
\<close>

definition probe :: "('v, unit, ('v list \<times> (string \<times> 'v) list) list world_scheme) pyfun" where
  "probe args kwargs w = (Inr (), world.more_update (\<lambda>calls. calls @ [(args, kwargs)]) w)"

section \<open>The class \<^verbatim>\<open>MyClass\<close>\<close>

text \<open>
  \<^verbatim>\<open>class MyClass: count = 0\<close>: the class body sets the class attribute once, when the
  class statement runs.
\<close>

definition MyClass_initial :: "MyClass_cls" where
  "MyClass_initial = \<lparr>count = 0\<rparr>"

text \<open>A state to run the examples in: nothing printed, the counter as the class body set it.\<close>

definition start :: world where
  "start = \<lparr>stdout = [], MyClass = MyClass_initial\<rparr>"

text \<open>\<^verbatim>\<open>@classmethod def increment_count(cls): cls.count += 1\<close>\<close>

definition increment_count :: "MyClass_cls \<Rightarrow> MyClass_cls" where
  "increment_count cls = cls\<lparr>count := count cls + 1\<rparr>"

text \<open>
  \<^verbatim>\<open>MyClass.increment_count()\<close> as a statement of the script: the class method gets the
  class object and the state keeps what it leaves.
\<close>

definition call_increment_count :: "'a world_scheme \<Rightarrow> 'a world_scheme" where
  "call_increment_count w = w\<lparr>MyClass := increment_count (MyClass w)\<rparr>"

text \<open>
  \<^verbatim>\<open>MyClass()\<close> makes an instance with no attribute of its own (the class has no
  \<^verbatim>\<open>__init__\<close>), and \<^verbatim>\<open>obj.count\<close> looks in the instance first and in the class next.
\<close>

definition MyClass_new :: "attrs" where
  "MyClass_new = Map.empty"

definition getattr_count :: "MyClass_cls \<Rightarrow> attrs \<Rightarrow> pyval" where
  "getattr_count cls self = (case self ''count'' of Some v \<Rightarrow> v | None \<Rightarrow> PInt (count cls))"

text \<open>
  Lines 202 to 204 of the script:
  \<^verbatim>\<open>print(f"Count before incrementing = {MyClass.count}")\<close>
  \<^verbatim>\<open>MyClass.increment_count()\<close>
  \<^verbatim>\<open>print(f"Count after incrementing = {MyClass.count}")\<close>
\<close>

definition script_count :: "'a world_scheme \<Rightarrow> 'a world_scheme" where
  "script_count w =
     (let w1 = print (''Count before incrementing = '' @ str_int (count (MyClass w))) w;
          w2 = call_increment_count w1
      in print (''Count after incrementing = '' @ str_int (count (MyClass w2))) w2)"

section \<open>The class \<^verbatim>\<open>Person\<close>\<close>

text \<open>\<^verbatim>\<open>def __init__(self, name, age): self.name = name; self.age = age\<close>\<close>

record 'n Person =
  name :: 'n
  age :: int

definition Person_init :: "'n \<Rightarrow> int \<Rightarrow> 'n Person" where
  "Person_init name0 age0 = \<lparr>name = name0, age = age0\<rparr>"

text \<open>
  \<^verbatim>\<open>@classmethod def from_birth_year(cls, name, birth_year):\<close>
  \<^verbatim>\<open>    current_year = 2025; age = current_year - birth_year; return cls(name, age)\<close>
  The class \<^verbatim>\<open>cls\<close> is the constructor that the method calls. Years are Python
  \<^verbatim>\<open>int\<close>s, which are unbounded, so the subtraction is exact.
\<close>

definition from_birth_year :: "('n \<Rightarrow> int \<Rightarrow> 'p) \<Rightarrow> 'n \<Rightarrow> int \<Rightarrow> 'p" where
  "from_birth_year cls name0 birth_year =
     (let current_year = 2025; age0 = current_year - birth_year in cls name0 age0)"

text \<open>
  \<^verbatim>\<open>Person.from_birth_year(name, birth_year)\<close> as an expression of the script: evaluated
  in a state, it yields the new instance and the state after the call.
\<close>

definition Person_from_birth_year ::
  "'n \<Rightarrow> int \<Rightarrow> 'a world_scheme \<Rightarrow> 'n Person \<times> 'a world_scheme" where
  "Person_from_birth_year name0 birth_year w = (from_birth_year Person_init name0 birth_year, w)"

text \<open>
  Lines 223 to 225 of the script:
  \<^verbatim>\<open>p1 = Person("Alice", 25)\<close>
  \<^verbatim>\<open>p2 = Person.from_birth_year("Bob", 1990)\<close>
  \<^verbatim>\<open>print(p2.name, p2.age)\<close>
\<close>

definition script_person :: "'a world_scheme \<Rightarrow> 'a world_scheme" where
  "script_person w =
     (let p1 = Person_init ''Alice'' 25;
          (p2, w1) = Person_from_birth_year ''Bob'' 1990 w
      in print (name p2 @ '' '' @ str_int (age p2)) w1)"

section \<open>Sequences of radius assignments\<close>

text \<open>
  \<^verbatim>\<open>c.radius = v1; c.radius = v2; ...\<close>: the assignments run in order and the first
  one that raises ends the run.
\<close>

fun assign_radii :: "attrs \<Rightarrow> pyval list \<Rightarrow> (pyerr + unit) \<times> attrs" where
  "assign_radii self [] = (Inr (), self)"
| "assign_radii self (v # vs) =
     (case Circle_radius_setter self v of
        (Inl e, self') \<Rightarrow> (Inl e, self')
      | (Inr u, self') \<Rightarrow> assign_radii self' vs)"

text \<open>The validation rule, read on an instance: it has a radius and the radius is positive.\<close>

definition radius_positive :: "attrs \<Rightarrow> bool" where
  "radius_positive self = (case self ''_radius'' of None \<Rightarrow> False | Some r \<Rightarrow> py_gt r (PInt 0))"

section \<open>Facts about rounding\<close>

text \<open>The binary exponent brackets its argument between two powers of two, and is the only one to.\<close>

lemma binary_exponent_le:
  assumes "x \<noteq> 0"
  shows "2 powi (binary_exponent x) \<le> \<bar>x\<bar>"
proof (cases "1 \<le> \<bar>x\<bar>")
  case True
  define m where "m = nat \<lfloor>\<bar>x\<bar>\<rfloor>"
  have m: "0 < m" using True by (simp add: m_def)
  have fl: "0 < floorlog 2 m" using m by (simp add: floorlog_def)
  have "2 ^ (floorlog 2 m - 1) \<le> m" using floorlog_bounds [of m 2] m by simp
  then have "real (2 ^ (floorlog 2 m - 1)) \<le> real m" by (rule iffD2 [OF of_nat_le_iff])
  then have "(2::real) ^ (floorlog 2 m - 1) \<le> real m" by simp
  also have "real m \<le> \<bar>x\<bar>" using True by (simp add: m_def)
  finally have "(2::real) ^ (floorlog 2 m - 1) \<le> \<bar>x\<bar>" .
  moreover have "binary_exponent x = int (floorlog 2 m - 1)"
    using True fl by (simp add: binary_exponent_def m_def)
  ultimately show ?thesis by simp
next
  case False
  define q where "q = \<lceil>1 / \<bar>x\<bar>\<rceil>"
  define m where "m = nat (q - 1)"
  define k where "k = floorlog 2 m"
  from False assms have x: "0 < \<bar>x\<bar>" "\<bar>x\<bar> < 1" by simp_all
  then have "1 < 1 / \<bar>x\<bar>" by simp
  then have c: "2 \<le> q" unfolding q_def by linarith
  then have m: "0 < m" and im: "int m = q - 1" by (simp_all add: m_def)
  have "m < 2 ^ k" using floorlog_bounds [of m 2] m by (simp add: k_def)
  then have "int m < 2 ^ k" by (metis of_nat_less_iff of_nat_power of_nat_numeral)
  then have "q \<le> 2 ^ k" using im by simp
  then have "1 / \<bar>x\<bar> \<le> 2 ^ k" unfolding q_def by (simp add: ceiling_le_iff)
  then have "1 \<le> 2 ^ k * \<bar>x\<bar>" using x by (simp add: field_simps)
  then have "1 / 2 ^ k \<le> \<bar>x\<bar>" by (simp add: field_simps)
  moreover have "binary_exponent x = - int k"
    using False by (simp add: binary_exponent_def m_def k_def q_def)
  ultimately show ?thesis by (simp add: power_int_minus_divide)
qed

lemma binary_exponent_gt:
  assumes "x \<noteq> 0"
  shows "\<bar>x\<bar> < 2 powi (binary_exponent x + 1)"
proof (cases "1 \<le> \<bar>x\<bar>")
  case True
  define m where "m = nat \<lfloor>\<bar>x\<bar>\<rfloor>"
  have m: "0 < m" using True by (simp add: m_def)
  have fl: "0 < floorlog 2 m" using m by (simp add: floorlog_def)
  have "m < 2 ^ floorlog 2 m" using floorlog_bounds [of m 2] m by simp
  then have "int m < 2 ^ floorlog 2 m" by (metis of_nat_less_iff of_nat_power of_nat_numeral)
  then have "\<lfloor>\<bar>x\<bar>\<rfloor> < 2 ^ floorlog 2 m" using True by (simp add: m_def)
  then have "\<bar>x\<bar> < 2 ^ floorlog 2 m" by (simp add: floor_less_iff)
  moreover have "binary_exponent x + 1 = int (floorlog 2 m)"
    using True by (simp add: binary_exponent_def m_def)
  ultimately show ?thesis by simp
next
  case False
  define q where "q = \<lceil>1 / \<bar>x\<bar>\<rceil>"
  define m where "m = nat (q - 1)"
  define k where "k = floorlog 2 m"
  from False assms have x: "0 < \<bar>x\<bar>" "\<bar>x\<bar> < 1" by simp_all
  then have "1 < 1 / \<bar>x\<bar>" by simp
  then have c: "2 \<le> q" unfolding q_def by linarith
  then have m: "0 < m" and im: "int m = q - 1" by (simp_all add: m_def)
  then have k: "0 < k" by (simp add: k_def floorlog_def)
  have "2 ^ (k - 1) \<le> m" using floorlog_bounds [of m 2] m by (simp add: k_def)
  then have "int (2 ^ (k - 1)) \<le> int m" by (rule iffD2 [OF of_nat_le_iff])
  then have "2 ^ (k - 1) \<le> q - 1" using im by simp
  then have "2 ^ (k - 1) < q" by simp
  then have "2 ^ (k - 1) < 1 / \<bar>x\<bar>" unfolding q_def by (simp add: less_ceiling_iff)
  then have "2 ^ (k - 1) * \<bar>x\<bar> < 1" using x by (simp add: field_simps)
  then have "\<bar>x\<bar> < 1 / 2 ^ (k - 1)" by (simp add: field_simps)
  moreover have "binary_exponent x + 1 = - int (k - 1)"
    using False k by (simp add: binary_exponent_def m_def k_def q_def)
  ultimately show ?thesis by (simp add: power_int_minus_divide)
qed

lemma binary_exponent_eqI:
  assumes lo: "2 powi e \<le> \<bar>x\<bar>" and hi: "\<bar>x\<bar> < 2 powi (e + 1)"
  shows "binary_exponent x = e"
proof -
  have "0 < (2::real) powi e" by simp
  with lo have "0 < \<bar>x\<bar>" by linarith
  then have nz: "x \<noteq> 0" by auto
  have "(2::real) powi e < 2 powi (binary_exponent x + 1)"
    using lo binary_exponent_gt [OF nz] by simp
  then have a: "e < binary_exponent x + 1"
    by (metis linorder_not_le one_le_numeral power_int_increasing)
  have "(2::real) powi (binary_exponent x) < 2 powi (e + 1)"
    using hi binary_exponent_le [OF nz] by simp
  then have b: "binary_exponent x < e + 1"
    by (metis linorder_not_le one_le_numeral power_int_increasing)
  from a b show ?thesis by simp
qed




lemma round_half_even_le: "y \<le> of_int k \<Longrightarrow> round_half_even y \<le> k"
proof -
  assume le: "y \<le> of_int k"
  show ?thesis
  proof (cases "y = of_int k")
    case True
    then show ?thesis unfolding round_half_even_def Let_def by simp
  next
    case False
    with le have "y < of_int k" by simp
    then have "\<lfloor>y\<rfloor> < k" by (simp add: floor_less_iff)
    then show ?thesis unfolding round_half_even_def Let_def by auto
  qed
qed





lemma round_finite_eval:
  assumes "2 powi e \<le> \<bar>x\<bar>" and "\<bar>x\<bar> < 2 powi (e + 1)"
  shows "round_finite x =
    of_int (round_half_even (x / 2 powi (max e (- 1022) - 52))) * 2 powi (max e (- 1022) - 52)"
  using binary_exponent_eqI [OF assms] by (simp add: round_finite_def Let_def)

text \<open>The values that the script's arithmetic meets, rounded.\<close>

lemma round_finite_literal: "round_finite (157 / 50) = 7070651414971679 / 2 ^ 51"
  by (subst round_finite_eval [where e = 1]) (simp_all add: round_half_even_def)

lemma round_double_literal: "round_double (157 / 50) = Finite (7070651414971679 / 2 ^ 51)"
  by (simp add: round_double_def round_finite_literal)










text \<open>
  The area of a Circle with a finite radius of value \<open>x\<close>, in one formula: the square is
  rounded, an overflow of the square is an \<^verbatim>\<open>OverflowError\<close>, and the product with
  the literal is rounded again.
\<close>

lemma area_finite_radius:
  assumes radius: "c ''_radius'' = Some r" and val: "finite_value r = Some x"
  shows "Circle_area c =
    (case round_double (x\<^sup>2) of
       Finite s \<Rightarrow> Inr (PFloat (round_double (7070651414971679 / 2 ^ 51 * s)))
     | overflow \<Rightarrow> Inl OverflowError, c)"
proof (cases r)
  case (PInt n)
  with val have x: "x = of_int n" by simp
  show ?thesis
    using radius PInt
    by (simp add: Circle_area_def Circle_radius_def x round_double_literal
        split: pyfloat.splits)
next
  case (PFloat y)
  with val obtain x' where y: "y = Finite x'" by (cases y) simp_all
  with val PFloat have x: "x = x'" by simp
  show ?thesis
    using radius PFloat y
    by (simp add: Circle_area_def Circle_radius_def x float_pow_def round_double_literal
        split: pyfloat.splits)
qed



text \<open>
  A float radius: \<^verbatim>\<open>Circle(0.1).area\<close> is \<^verbatim>\<open>0.031400000000000004\<close>. The literal
  \<^verbatim>\<open>0.1\<close> is the double \<open>3602879701896397 / 2\<^sup>5\<^sup>5\<close>.
\<close>

lemma round_double_tenth: "round_double (1 / 10) = Finite (3602879701896397 / 2 ^ 55)"
proof -
  have "round_finite (1 / 10) = 3602879701896397 / 2 ^ 55"
    by (subst round_finite_eval [where e = "- 4"]) (simp_all add: round_half_even_def)
  then show ?thesis by (simp add: round_double_def)
qed

lemma area_value_tenth:
  assumes "c ''_radius'' = Some (PFloat (Finite (3602879701896397 / 2 ^ 55)))"
  shows "Circle_area c = (Inr (PFloat (Finite (4525216905581875 / 2 ^ 57))), c)"
proof -
  have "round_finite ((3602879701896397 / 2 ^ 55)\<^sup>2) = 1441151880758559 / 2 ^ 57"
    by (subst round_finite_eval [where e = "- 7"])
      (simp_all add: round_half_even_def power2_eq_square)
  then have sq: "round_double ((3602879701896397 / 2 ^ 55)\<^sup>2) = Finite (1441151880758559 / 2 ^ 57)"
    by (simp add: round_double_def)
  have "round_finite (7070651414971679 / 2 ^ 51 * (1441151880758559 / 2 ^ 57))
      = 4525216905581875 / 2 ^ 57"
    by (subst round_finite_eval [where e = "- 5"]) (simp_all add: round_half_even_def)
  then have product: "round_double (7070651414971679 / 2 ^ 51 * (1441151880758559 / 2 ^ 57))
      = Finite (4525216905581875 / 2 ^ 57)"
    by (simp add: round_double_def)
  have "finite_value (PFloat (Finite (3602879701896397 / 2 ^ 55))) = Some (3602879701896397 / 2 ^ 55)"
    by simp
  from area_finite_radius [of c "PFloat (Finite (3602879701896397 / 2 ^ 55))"
      "3602879701896397 / 2 ^ 55", OF assms this]
  show ?thesis by (simp only: sq pyfloat.case product)
qed

text \<open>
  A tie: the square of 94906267 is odd and lies between \<open>2\<^sup>5\<^sup>3\<close> and \<open>2\<^sup>5\<^sup>4\<close>, where
  the doubles are the even integers, so its conversion is a tie and goes to the double
  with the even last bit; \<^verbatim>\<open>Circle(94906267).area\<close> is \<^verbatim>\<open>2.8282606479848404e+16\<close>.
\<close>

lemma area_value_tie:
  assumes "c ''_radius'' = Some (PInt 94906267)"
  shows "Circle_area c = (Inr (PFloat (Finite 28282606479848404)), c)"
proof -
  have "round_finite (94906267\<^sup>2) = 9007199515875288"
    by (subst round_finite_eval [where e = 53]) (simp_all add: round_half_even_def)
  then have sq: "round_double (94906267\<^sup>2) = Finite 9007199515875288"
    by (simp add: round_double_def)
  have "round_finite (7070651414971679 / 2 ^ 51 * 9007199515875288) = 28282606479848404"
    by (subst round_finite_eval [where e = 54]) (simp_all add: round_half_even_def)
  then have product:
    "round_double (7070651414971679 / 2 ^ 51 * 9007199515875288) = Finite 28282606479848404"
    by (simp add: round_double_def)
  have "finite_value (PInt 94906267) = Some 94906267" by simp
  from area_finite_radius [of c "PInt 94906267" 94906267, OF assms this] show ?thesis
    by (simp only: sq pyfloat.case product)
qed

section \<open>Auxiliary facts\<close>

lemma float_not_gt_zero: "(\<not> float_gt x (Finite 0)) = (float_le x (Finite 0) \<or> x = NaN)"
  by (cases x) auto

lemma py_not_gt_zero: "(\<not> py_gt v (PInt 0)) = (py_le v (PInt 0) \<or> v = PFloat NaN)"
  by (cases v) (auto simp: float_not_gt_zero)

lemma py_le_zero_not_gt: "py_le v (PInt 0) \<Longrightarrow> \<not> py_gt v (PInt 0)"
  using py_not_gt_zero by blast

lemma stdout_print: "stdout (print line w) = stdout w @ [line]"
  by (simp add: print_def)

lemma str_int_3: "str_int 3 = ''3''"
  by (simp add: str_int_def digit_char_def)

lemma calling_message_1_2:
  "calling_message str_int [1, 2] [] = ''Calling the wrapped function with arguments (1, 2), {}''"
  by (simp add: calling_message_def repr_tuple_def repr_dict_def str_int_def digit_char_def)

lemma calling_message_1:
  "calling_message str_int [1] [] = ''Calling the wrapped function with arguments (1,), {}''"
  by (simp add: calling_message_def repr_tuple_def repr_dict_def str_int_def digit_char_def)

lemma calling_message_keywords:
  "calling_message str_int [] [(''num1'', 1), (''num2'', 2)]
     = ''Calling the wrapped function with arguments (), {'num1': 1, 'num2': 2}''"
  by (simp add: calling_message_def repr_tuple_def repr_dict_def repr_key_def str_int_def
      digit_char_def)

lemma add_call_1_2: "add_call [1, 2] [] w = (Inr 3, print ''Sum = 3'' w)"
  by (simp add: add_call_def bind_params_def add_def str_int_3)

lemma add_call_keywords: "add_call [] [(''num1'', 1), (''num2'', 2)] w = (Inr 3, print ''Sum = 3'' w)"
  by (simp add: add_call_def bind_params_def add_def str_int_3)

lemma add_call_too_many: "add_call [1, 2, 3] [] w = (Inl TypeError, w)"
  by (simp add: add_call_def bind_params_def)

text \<open>
  The two outputs that the comments in \<^verbatim>\<open>wrapper\<close> give for a decorated \<^verbatim>\<open>add\<close>:
  \<^verbatim>\<open>add(1, 2)\<close> prints the arguments as \<^verbatim>\<open>(1, 2), {}\<close>, and
  \<^verbatim>\<open>add(num1=1, num2=2)\<close> prints them as \<^verbatim>\<open>(), {'num1': 1, 'num2': 2}\<close>.
\<close>

lemma log_add_positional:
  "stdout (snd (log_add [1, 2] [] start))
     = [''Calling the wrapped function with arguments (1, 2), {}'',
        ''Sum = 3'', ''Wrapped function execution complete!'']"
  by (simp add: log_add_def log_dec_def wrapper_def add_call_1_2 calling_message_1_2
      print_def start_def)

lemma log_add_keywords:
  "stdout (snd (log_add [] [(''num1'', 1), (''num2'', 2)] start))
     = [''Calling the wrapped function with arguments (), {'num1': 1, 'num2': 2}'',
        ''Sum = 3'', ''Wrapped function execution complete!'']"
  by (simp add: log_add_def log_dec_def wrapper_def add_call_keywords calling_message_keywords
      print_def start_def)

lemma count_funpow: "count ((increment_count ^^ k) cls) = count cls + int k"
  by (induction k) (simp_all add: increment_count_def)

text \<open>A successful assignment establishes the validation rule, whatever the instance was.\<close>

lemma setter_establishes_positive:
  "Circle_radius_setter self v = (Inr u, self') \<Longrightarrow> radius_positive self'"
  by (auto simp: Circle_radius_setter_def radius_positive_def split: if_splits)

text \<open>
  A run of assignments that does not raise keeps the rule: induction on the run, for
  every instance it may start from.
\<close>

lemma assign_radii_preserves_positive:
  "radius_positive self \<Longrightarrow> assign_radii self vs = (Inr u, c) \<Longrightarrow> radius_positive c"
proof (induction vs arbitrary: self)
  case Nil
  then show ?case by simp
next
  case (Cons v vs)
  show ?case
  proof (cases "Circle_radius_setter self v")
    case (Pair res self')
    show ?thesis
    proof (cases res)
      case (Inl e)
      with Pair Cons.prems(2) show ?thesis by simp
    next
      case (Inr u')
      with Pair have "radius_positive self'"
        using setter_establishes_positive by blast
      moreover from Pair Inr Cons.prems(2) have "assign_radii self' vs = (Inr u, c)"
        by simp
      ultimately show ?thesis by (rule Cons.IH)
    qed
  qed
qed

lemma Circle_radius_positive: "radius_positive (Circle r) = py_gt r (PInt 0)"
  by (simp add: radius_positive_def Circle_def Circle_init_def)

text \<open>The other operations of the class do not write \<^verbatim>\<open>_radius\<close> at all, or remove it.\<close>

lemma getter_leaves_instance: "snd (Circle_radius self) = self"
  by (simp add: Circle_radius_def split: option.splits)


lemma deleter_removes_only_radius: "a \<noteq> ''_radius'' \<Longrightarrow> snd (Circle_radius_deleter self) a = self a"
  by (simp add: Circle_radius_deleter_def split: option.splits)

section \<open>The radius setter\<close>

text \<open>
  Claim C1, as stated, fails. It says that the assignment raises in exactly the case
  \<open>v \<le> 0\<close>. The setter tests \<^verbatim>\<open>value > 0\<close> and raises in the \<^verbatim>\<open>else\<close> branch, so
  it also raises for the float NaN, and NaN is not \<open>\<le> 0\<close>: the assignment
  \<^verbatim>\<open>c.radius = float("nan")\<close> on \<^verbatim>\<open>Circle(5)\<close> raises the \<^verbatim>\<open>ValueError\<close> although
  \<^verbatim>\<open>float("nan") <= 0\<close> is false.
\<close>

theorem setter_raises_on_nan:
  "fst (Circle_radius_setter (Circle (PInt 5)) (PFloat NaN))
     = Inl (ValueError ''Radius must be positive'')
   \<and> \<not> py_le (PFloat NaN) (PInt 0)"
  by (simp add: Circle_radius_setter_def)

text \<open>
  Claim C1, amended. For every Circle \<open>c\<close> and every number \<open>v\<close> (an \<^verbatim>\<open>int\<close> or a
  \<^verbatim>\<open>float\<close>): when \<open>v > 0\<close> the assignment \<^verbatim>\<open>c.radius = v\<close> stores \<open>v\<close>, which the
  getter then returns; when \<open>v \<le> 0\<close> it raises \<^verbatim>\<open>ValueError("Radius must be positive")\<close>;
  and it raises exactly when \<open>v > 0\<close> is false, that is when \<open>v \<le> 0\<close> or \<open>v\<close> is NaN,
  each time with this \<^verbatim>\<open>ValueError\<close> and with \<open>c\<close> left as it was.
\<close>

theorem Circle_radius_setter_cases:
  "(py_gt v (PInt 0) \<longrightarrow>
      Circle_radius_setter c v = (Inr (), c(''_radius'' \<mapsto> v))
      \<and> Circle_radius (snd (Circle_radius_setter c v)) = (Inr v, c(''_radius'' \<mapsto> v)))
   \<and> (py_le v (PInt 0) \<longrightarrow>
      Circle_radius_setter c v = (Inl (ValueError ''Radius must be positive''), c))
   \<and> ((\<exists>e. fst (Circle_radius_setter c v) = Inl e) = (\<not> py_gt v (PInt 0)))
   \<and> ((\<exists>e. fst (Circle_radius_setter c v) = Inl e) = (py_le v (PInt 0) \<or> v = PFloat NaN))
   \<and> (\<not> py_gt v (PInt 0) \<longrightarrow>
      Circle_radius_setter c v = (Inl (ValueError ''Radius must be positive''), c))"
proof -
  have always: "\<not> py_gt v (PInt 0) \<longrightarrow>
      Circle_radius_setter c v = (Inl (ValueError ''Radius must be positive''), c)"
    by (simp add: Circle_radius_setter_def)
  have raises: "(\<exists>e. fst (Circle_radius_setter c v) = Inl e) = (\<not> py_gt v (PInt 0))"
    by (simp add: Circle_radius_setter_def)
  have stores: "py_gt v (PInt 0) \<longrightarrow>
      Circle_radius_setter c v = (Inr (), c(''_radius'' \<mapsto> v))
      \<and> Circle_radius (snd (Circle_radius_setter c v)) = (Inr v, c(''_radius'' \<mapsto> v))"
    by (simp add: Circle_radius_setter_def Circle_radius_def)
  have rejects: "py_le v (PInt 0) \<longrightarrow>
      Circle_radius_setter c v = (Inl (ValueError ''Radius must be positive''), c)"
    using py_le_zero_not_gt [of v] by (auto simp: Circle_radius_setter_def)
  have domain:
    "(\<exists>e. fst (Circle_radius_setter c v) = Inl e) = (py_le v (PInt 0) \<or> v = PFloat NaN)"
    using raises py_not_gt_zero [of v] by simp
  from stores rejects raises domain always show ?thesis
    by (intro conjI)
qed

theorem Circle_radius_setter_cases_witness:
  "Circle_radius_setter (Circle (PInt 5)) (PInt 10)
     = (Inr (), (Circle (PInt 5))(''_radius'' \<mapsto> PInt 10))
   \<and> Circle_radius_setter (Circle (PInt 5)) (PInt (- 3))
     = (Inl (ValueError ''Radius must be positive''), Circle (PInt 5))
   \<and> (\<exists>e. fst (Circle_radius_setter (Circle (PInt 5)) (PFloat NaN)) = Inl e)"
  using Circle_radius_setter_cases [of "PInt 10" "Circle (PInt 5)"]
    Circle_radius_setter_cases [of "PInt (- 3)" "Circle (PInt 5)"]
    Circle_radius_setter_cases [of "PFloat NaN" "Circle (PInt 5)"]
  by simp

section \<open>The validation rule as an invariant\<close>

text \<open>
  Claim C2, as stated, fails. The constructor stores its argument without the test of
  the setter, and the empty sequence is a sequence of assignments that did not raise:
  \<^verbatim>\<open>Circle(-5)\<close>, never assigned, has the radius \<open>-5\<close>.
\<close>

theorem unassigned_circle_not_positive:
  "assign_radii (Circle (PInt (- 5))) [] = (Inr (), Circle (PInt (- 5)))
   \<and> Circle_radius (Circle (PInt (- 5))) = (Inr (PInt (- 5)), Circle (PInt (- 5)))
   \<and> \<not> py_gt (PInt (- 5)) (PInt 0)"
  by (simp add: Circle_radius_def Circle_def Circle_init_def)

text \<open>
  Claim C2, amended. For every Circle constructed from a value \<open>r\<close> and every sequence
  of radius assignments none of which raised, the stored radius is \<open>> 0\<close> provided that
  \<open>r > 0\<close> or the sequence has at least one assignment.
\<close>

theorem assigned_radius_positive:
  assumes run: "assign_radii (Circle r) vs = (Inr u, c)"
    and first: "py_gt r (PInt 0) \<or> vs \<noteq> []"
  shows "\<exists>x. Circle_radius c = (Inr x, c) \<and> py_gt x (PInt 0)"
proof -
  have "radius_positive c"
  proof (cases vs)
    case Nil
    with first have "radius_positive (Circle r)" by (simp add: Circle_radius_positive)
    with run show ?thesis by (rule assign_radii_preserves_positive [rotated])
  next
    case (Cons v vs')
    show ?thesis
    proof (cases "Circle_radius_setter (Circle r) v")
      case (Pair res self')
      show ?thesis
      proof (cases res)
        case (Inl e)
        with Pair run Cons show ?thesis by simp
      next
        case (Inr u')
        with Pair have "radius_positive self'"
          using setter_establishes_positive by blast
        moreover from Pair Inr run Cons have "assign_radii self' vs' = (Inr u, c)"
          by simp
        ultimately show ?thesis by (rule assign_radii_preserves_positive)
      qed
    qed
  qed
  then show ?thesis
    by (auto simp: radius_positive_def Circle_radius_def split: option.splits)
qed

theorem assigned_radius_positive_witness:
  "assign_radii (Circle (PInt (- 5))) [PInt 10, PFloat (Finite 2.5)]
     = (Inr (), (Circle (PInt (- 5)))(''_radius'' \<mapsto> PFloat (Finite 2.5)))
   \<and> (\<exists>x. Circle_radius ((Circle (PInt (- 5)))(''_radius'' \<mapsto> PFloat (Finite 2.5)))
            = (Inr x, (Circle (PInt (- 5)))(''_radius'' \<mapsto> PFloat (Finite 2.5)))
          \<and> py_gt x (PInt 0))"
proof -
  have run: "assign_radii (Circle (PInt (- 5))) [PInt 10, PFloat (Finite 2.5)]
     = (Inr (), (Circle (PInt (- 5)))(''_radius'' \<mapsto> PFloat (Finite 2.5)))"
    by (simp add: Circle_radius_setter_def)
  have nonempty: "py_gt (PInt (- 5)) (PInt 0) \<or> [PInt 10, PFloat (Finite 2.5)] \<noteq> []"
    by simp
  from run assigned_radius_positive [OF run nonempty] show ?thesis by simp
qed

section \<open>The logging wrapper\<close>

text \<open>
  Claim C3, as stated, fails. It promises the completion message and the result
  \<^verbatim>\<open>None\<close> for every function and every combination of arguments, but the wrapper has
  no \<^verbatim>\<open>try\<close>: when the forwarded call raises, the exception leaves the wrapper. The
  script's own \<^verbatim>\<open>add\<close> needs two arguments, so \<^verbatim>\<open>log_add(1)\<close> prints the calling
  message, raises \<^verbatim>\<open>TypeError\<close> and prints nothing more.
\<close>

theorem log_add_missing_argument:
  "log_add [1] [] start =
     (Inl TypeError,
      \<lparr>stdout = [''Calling the wrapped function with arguments (1,), {}''],
       MyClass = MyClass_initial\<rparr>)"
  by (simp add: log_add_def log_dec_def wrapper_def add_call_def bind_params_def
      calling_message_1 print_def start_def)

text \<open>
  Claim C3, amended. For every function \<open>func\<close> and every combination of positional and
  keyword arguments, the wrapper returned by \<^verbatim>\<open>log(func)\<close> first prints the calling
  message, then calls \<open>func\<close> once with exactly these arguments, in the state that the
  first print left. When that call returns, with whatever value \<open>r\<close>, the wrapper prints
  the completion message after everything the call did and returns \<^verbatim>\<open>None\<close>. When
  that call raises, the wrapper raises the same exception, in the state the call left.
  A wrapped function that logs its calls logs one call, with the forwarded arguments.
\<close>

theorem log_wrapper_behaviour:
  "(func args kwargs (print (calling_message repr args kwargs) w) = (Inr r, w2) \<longrightarrow>
      log_dec repr func args kwargs w
        = (Inr None, print ''Wrapped function execution complete!'' w2)
      \<and> stdout (snd (log_dec repr func args kwargs w))
        = stdout w2 @ [''Wrapped function execution complete!''])
   \<and> (func args kwargs (print (calling_message repr args kwargs) w) = (Inl e, w2) \<longrightarrow>
      log_dec repr func args kwargs w = (Inl e, w2))
   \<and> stdout (print (calling_message repr args kwargs) w)
        = stdout w @ [calling_message repr args kwargs]
   \<and> world.more (snd (log_dec repr probe args kwargs wp)) = world.more wp @ [(args, kwargs)]"
proof -
  have once: "world.more (snd (log_dec repr probe args kwargs wp))
      = world.more wp @ [(args, kwargs)]"
    by (simp add: log_dec_def wrapper_def probe_def print_def)
  have order: "stdout (print (calling_message repr args kwargs) w)
      = stdout w @ [calling_message repr args kwargs]"
    by (rule stdout_print)
  from once order show ?thesis
    by (simp add: log_dec_def wrapper_def stdout_print)
qed

theorem log_wrapper_behaviour_witness:
  "log_add [1, 2] [] start =
     (Inr None,
      \<lparr>stdout = [''Calling the wrapped function with arguments (1, 2), {}'',
                 ''Sum = 3'',
                 ''Wrapped function execution complete!''],
       MyClass = MyClass_initial\<rparr>)
   \<and> log_add [1, 2, 3] [] start =
     (Inl TypeError, print (calling_message str_int [1, 2, 3] []) start)"
proof -
  have returns: "add_call [1, 2] [] (print (calling_message str_int [1, 2] []) start)
      = (Inr 3, print ''Sum = 3'' (print (calling_message str_int [1, 2] []) start))"
    by (rule add_call_1_2)
  have raises: "add_call [1, 2, 3] [] (print (calling_message str_int [1, 2, 3] []) start)
      = (Inl TypeError, print (calling_message str_int [1, 2, 3] []) start)"
    by (rule add_call_too_many)
  show ?thesis
    using returns raises
      log_wrapper_behaviour [where func = add_call and repr = str_int and args = "[1, 2]"
        and kwargs = "[]" and w = start and r = 3
        and ?w2.0 = "print ''Sum = 3'' (print (calling_message str_int [1, 2] []) start)"]
      log_wrapper_behaviour [where func = add_call and repr = str_int and args = "[1, 2, 3]"
        and kwargs = "[]" and w = start and e = TypeError
        and ?w2.0 = "print (calling_message str_int [1, 2, 3] []) start"]
    by (simp add: log_add_def calling_message_1_2 print_def start_def)
qed

section \<open>The factory method\<close>

text \<open>
  Claim C4. For every name and every birth year, \<^verbatim>\<open>Person.from_birth_year\<close> returns a
  Person whose \<^verbatim>\<open>name\<close> is the given name and whose \<^verbatim>\<open>age\<close> is 2025 minus the birth
  year; with the birth year 1990 the age is 35, and the script prints \<^verbatim>\<open>Bob 35\<close>.
\<close>

theorem from_birth_year_fields:
  "name (fst (Person_from_birth_year n b w)) = n
   \<and> age (fst (Person_from_birth_year n b w)) = 2025 - b
   \<and> age (fst (Person_from_birth_year n 1990 w)) = 35
   \<and> stdout (script_person start) = [''Bob 35'']"
  by (simp add: Person_from_birth_year_def from_birth_year_def Person_init_def
      script_person_def print_def start_def str_int_def digit_char_def)

text \<open>
  Claim C7. \<^verbatim>\<open>Person.from_birth_year\<close> is deterministic: two calls with the same name
  and birth year, made in any two states of the program, return instances with equal
  \<^verbatim>\<open>name\<close> fields and equal \<^verbatim>\<open>age\<close> fields, so the result depends on the two
  arguments only; the call also leaves the state it runs in as it was.
\<close>

theorem from_birth_year_deterministic:
  "fst (Person_from_birth_year n b w1) = fst (Person_from_birth_year n b w2)
   \<and> name (fst (Person_from_birth_year n b w1)) = name (fst (Person_from_birth_year n b w2))
   \<and> age (fst (Person_from_birth_year n b w1)) = age (fst (Person_from_birth_year n b w2))
   \<and> snd (Person_from_birth_year n b w1) = w1"
  by (simp add: Person_from_birth_year_def)

section \<open>The class counter\<close>

text \<open>
  Claim C5. \<^verbatim>\<open>MyClass.count\<close> starts at 0 and each call of
  \<^verbatim>\<open>MyClass.increment_count\<close> adds exactly 1 to it, so \<open>k\<close> calls from the start give
  \<open>k\<close> and one call gives 1; the counter belongs to the class, and an instance reads
  the class's value, before and after an increment. The script prints 0, then 1.
\<close>

theorem increment_count_adds_one:
  "count MyClass_initial = 0
   \<and> count (increment_count cls) = count cls + 1
   \<and> count (MyClass (call_increment_count w)) = count (MyClass w) + 1
   \<and> count ((increment_count ^^ k) MyClass_initial) = int k
   \<and> getattr_count cls MyClass_new = PInt (count cls)
   \<and> getattr_count (increment_count cls) MyClass_new = PInt (count cls + 1)
   \<and> count (increment_count MyClass_initial) = 1
   \<and> script_count start =
        \<lparr>stdout = [''Count before incrementing = 0'', ''Count after incrementing = 1''],
         MyClass = \<lparr>count = 1\<rparr>\<rparr>"
proof -
  have "script_count start =
        \<lparr>stdout = [''Count before incrementing = 0'', ''Count after incrementing = 1''],
         MyClass = \<lparr>count = 1\<rparr>\<rparr>"
    by (simp add: script_count_def call_increment_count_def increment_count_def print_def
        start_def MyClass_initial_def str_int_def digit_char_def)
  moreover have "count ((increment_count ^^ k) MyClass_initial) = int k"
    by (simp add: count_funpow MyClass_initial_def)
  ultimately show ?thesis
    by (simp add: increment_count_def call_increment_count_def MyClass_initial_def
        getattr_count_def MyClass_new_def)
qed

section \<open>Failed assignments, the area, the constructor and the deleter\<close>

text \<open>
  Claim C6. When \<^verbatim>\<open>c.radius = v\<close> raises because \<open>v \<le> 0\<close>, the caller gets the
  \<^verbatim>\<open>ValueError\<close> (the setter does not catch it) and the Circle is as before: the
  same radius, read directly or through the getter, and the same value for every other
  attribute.
\<close>

theorem failed_assignment_leaves_circle:
  assumes "py_le v (PInt 0)"
  shows "fst (Circle_radius_setter c v) = Inl (ValueError ''Radius must be positive'')
    \<and> snd (Circle_radius_setter c v) = c
    \<and> snd (Circle_radius_setter c v) ''_radius'' = c ''_radius''
    \<and> (\<forall>a. snd (Circle_radius_setter c v) a = c a)
    \<and> Circle_radius (snd (Circle_radius_setter c v)) = Circle_radius c"
proof -
  have "\<not> py_gt v (PInt 0)"
    using assms by (rule py_le_zero_not_gt)
  then show ?thesis by (simp add: Circle_radius_setter_def)
qed

theorem failed_assignment_leaves_circle_witness:
  "py_le (PInt 0) (PInt 0)
   \<and> fst (Circle_radius_setter (Circle (PInt 5)) (PInt 0))
       = Inl (ValueError ''Radius must be positive'')
   \<and> snd (Circle_radius_setter (Circle (PInt 5)) (PInt 0)) = Circle (PInt 5)
   \<and> Circle_radius (snd (Circle_radius_setter (Circle (PInt 5)) (PInt 0)))
       = (Inr (PInt 5), Circle (PInt 5))"
proof -
  have le: "py_le (PInt 0) (PInt 0)" by simp
  from le failed_assignment_leaves_circle [OF le, of "Circle (PInt 5)"] show ?thesis
    by (simp add: Circle_radius_def Circle_def Circle_init_def)
qed




text \<open>
  Claim C9. The constructor performs no validation: for every value \<open>v\<close>, zero, negative
  values and NaN included, \<^verbatim>\<open>Circle(v)\<close> yields an instance (the constructor has no
  failing branch) whose \<^verbatim>\<open>_radius\<close> is \<open>v\<close> itself, and the \<^verbatim>\<open>radius\<close> getter then
  returns \<open>v\<close> and leaves the instance as it is.
\<close>

theorem Circle_stores_verbatim:
  "Circle v ''_radius'' = Some v \<and> Circle_radius (Circle v) = (Inr v, Circle v)"
  by (simp add: Circle_def Circle_init_def Circle_radius_def)

text \<open>
  Claim C10. For every Circle \<open>c\<close>, after \<^verbatim>\<open>del c.radius\<close> the attribute \<^verbatim>\<open>_radius\<close>
  does not exist, and reading \<^verbatim>\<open>c.radius\<close> or \<^verbatim>\<open>c.area\<close> raises \<^verbatim>\<open>AttributeError\<close>
  instead of returning a value; a read that raised leaves the instance as it was, so
  every later read raises as well.
\<close>

theorem deleted_radius_unreadable:
  "snd (Circle_radius_deleter c) ''_radius'' = None
   \<and> Circle_radius (snd (Circle_radius_deleter c))
       = (Inl (AttributeError ''_radius''), snd (Circle_radius_deleter c))
   \<and> Circle_area (snd (Circle_radius_deleter c))
       = (Inl (AttributeError ''_radius''), snd (Circle_radius_deleter c))"
  by (simp add: Circle_radius_deleter_def Circle_radius_def Circle_area_def split: option.splits)

end
